theory Spec2Isabelle
  imports Main
begin

section \<open>The wire contract\<close>

text \<open>
  The request and response messages of the four remote operations, as the handlers read
  and fill them. Every int64 field and every \<open>time_t\<close> is an \<open>int\<close>: the handlers
  only compare and copy these values, so no arithmetic can overflow. Byte strings
  (\<open>std::string\<close>) are lists of 8-bit characters. A response that a handler never
  touches keeps the default value of each field (0, false, empty).
\<close>

datatype StatusCode =
    OK | CANCELLED | UNKNOWN | INVALID_ARGUMENT | DEADLINE_EXCEEDED | NOT_FOUND
  | ALREADY_EXISTS | PERMISSION_DENIED | RESOURCE_EXHAUSTED | FAILED_PRECONDITION
  | ABORTED | OUT_OF_RANGE | UNIMPLEMENTED | INTERNAL | UNAVAILABLE | DATA_LOSS
  | UNAUTHENTICATED

record ReadRequest =
  read_path :: string
  read_offset :: int
  read_size :: int

record ReadResponse =
  read_data :: string
  bytes_read :: int

record WriteRequest =
  write_path :: string
  write_offset :: int
  write_data :: string
  write_mtime :: int

record WriteResponse =
  bytes_written :: int

record UnlinkRequest =
  unlink_path :: string

record UnlinkResponse =
  success :: bool

record GetAttrRequest =
  getattr_path :: string

record GetAttrResponse =
  attr_exists :: bool
  attr_size :: int
  attr_mtime :: int

section \<open>Local storage\<close>

text \<open>
  The server keeps no copy of any file: every handler goes to the local filesystem
  through \<open>std::ifstream\<close>, \<open>std::fstream\<close>, \<open>std::remove\<close> and \<open>stat\<close>. The
  store is a flat table of regular files. A file has its bytes, its modification time
  and the two permissions that decide whether the server process can open it. For a
  name, \<open>dir_writable\<close> says whether an entry of that name can be added to or removed
  from its directory (the directory exists and is writable, the name is usable).
  Storage is taken to be unbounded.
\<close>

record regular_file =
  content :: string
  st_mtime :: int
  readable :: bool
  writable :: bool

record filesystem =
  files :: "string \<Rightarrow> regular_file option"
  dir_writable :: "string \<Rightarrow> bool"

definition NUL :: char where
  "NUL = CHR 0x00"

text \<open>
  Every library call takes \<open>path.c_str()\<close>, which the C library reads up to the first
  NUL byte; the version table is keyed by the whole \<open>std::string\<close>.
\<close>

definition c_str :: "string \<Rightarrow> string" where
  "c_str path = takeWhile (\<lambda>c. c \<noteq> NUL) path"

text \<open>\<open>std::ifstream file(path, std::ios::binary)\<close>: the file when it opens for reading.\<close>

definition ifstream_open :: "filesystem \<Rightarrow> string \<Rightarrow> regular_file option" where
  "ifstream_open fs path =
     (case files fs (c_str path) of
        None \<Rightarrow> None
      | Some f \<Rightarrow> if readable f then Some f else None)"

text \<open>
  \<open>file.seekg(offset); file.read(&buffer[0], size)\<close> on an open stream: the bytes that
  arrive in the buffer. A negative offset makes the seek fail, and a failed stream reads
  nothing; a seek past the end succeeds and the read finds no byte.
\<close>

definition seekg_read :: "regular_file \<Rightarrow> int \<Rightarrow> int \<Rightarrow> string" where
  "seekg_read f offset sz =
     (if offset < 0 then [] else take (nat sz) (drop (nat offset) (content f)))"

text \<open>
  \<open>std::fstream file(path, in | out | binary)\<close>: whether the existing file opens for
  reading and writing.
\<close>

definition fstream_open_inout :: "filesystem \<Rightarrow> string \<Rightarrow> bool" where
  "fstream_open_inout fs path =
     (case files fs (c_str path) of
        None \<Rightarrow> False
      | Some f \<Rightarrow> readable f \<and> writable f)"

text \<open>
  \<open>file.open(path, out | binary); file.close()\<close>: opening for writing only creates an
  absent file (empty, readable and writable by the server) and truncates an existing
  one; where it fails nothing changes.
\<close>

definition fstream_open_out_close :: "filesystem \<Rightarrow> int \<Rightarrow> string \<Rightarrow> filesystem" where
  "fstream_open_out_close fs now path =
     (case files fs (c_str path) of
        None \<Rightarrow>
          if dir_writable fs (c_str path)
          then fs\<lparr>files := (files fs)(c_str path \<mapsto>
                 \<lparr>content = [], st_mtime = now, readable = True, writable = True\<rparr>)\<rparr>
          else fs
      | Some f \<Rightarrow>
          if writable f
          then fs\<lparr>files := (files fs)(c_str path \<mapsto> f\<lparr>content := [], st_mtime := now\<rparr>)\<rparr>
          else fs)"

text \<open>
  \<open>file.seekp(offset); file.write(data.data(), data.size())\<close> on a stream that is open
  for reading and writing, flushed when the stream is destroyed: the new bytes of the
  file. A negative offset makes the seek fail and the write does nothing; an empty
  payload writes nothing; a gap between the old end and the offset reads as NUL bytes.
\<close>

definition seekp_write :: "string \<Rightarrow> int \<Rightarrow> string \<Rightarrow> string" where
  "seekp_write old offset data =
     (if offset < 0 \<or> data = [] then old
      else take (nat offset) (old @ replicate (nat offset - length old) NUL)
           @ data @ drop (nat offset + length data) old)"

text \<open>\<open>std::remove(path.c_str())\<close>: the result code and the store afterwards.\<close>

definition std_remove :: "filesystem \<Rightarrow> string \<Rightarrow> int \<times> filesystem" where
  "std_remove fs path =
     (case files fs (c_str path) of
        None \<Rightarrow> (- 1, fs)
      | Some f \<Rightarrow>
          if dir_writable fs (c_str path)
          then (0, fs\<lparr>files := (files fs)(c_str path := None)\<rparr>)
          else (- 1, fs))"

text \<open>\<open>stat(path.c_str(), &statbuf)\<close>: \<open>st_size\<close> and \<open>st_mtime\<close> when the file exists.\<close>

definition stat :: "filesystem \<Rightarrow> string \<Rightarrow> (int \<times> int) option" where
  "stat fs path =
     (case files fs (c_str path) of
        None \<Rightarrow> None
      | Some f \<Rightarrow> Some (int (length (content f)), st_mtime f))"

section \<open>The version-gated write service\<close>

text \<open>
  The state of the server process: the local store and the global table
  \<open>file_versions\<close> (\<open>std::unordered_map<std::string, time_t>\<close>). Each handler runs
  from a state to a status, a response and the state afterwards; \<open>now\<close> is what the
  clock of the server host shows while the call runs (\<open>std::time(nullptr)\<close>, and the
  time the store stamps on a file it changes).

  The process has two limits on a \<open>std::string\<close> it builds, both fixed by the library
  and the machine it runs on and so carried as they are from call to call:
  \<open>string_max_size\<close> is \<open>std::string::max_size()\<close>, above which the constructor throws
  \<open>std::length_error\<close>, and \<open>heap_limit\<close> is the longest string the allocator can still
  hand out, above which it throws \<open>std::bad_alloc\<close>.
\<close>

record server =
  storage :: filesystem
  file_versions :: "string \<Rightarrow> int option"
  string_max_size :: int
  heap_limit :: int

datatype exn = length_error | bad_alloc

text \<open>
  \<open>DFSServerImpl::Read\<close>. The buffer is \<open>std::string buffer(size, 0)\<close>, built after
  the file has been opened. A negative \<open>size\<close> converts to an unsigned length of
  \<open>2^63\<close> or more, which is above every \<open>max_size()\<close>; for such a size and for one above
  \<open>max_size()\<close> the constructor throws \<open>std::length_error\<close>, and for one the allocator
  cannot serve it throws \<open>std::bad_alloc\<close>. The exception leaves the handler, which is
  the \<open>Inl\<close> result. The read fills the front of the buffer and the whole buffer goes
  into the response.
\<close>

definition Read :: "server \<Rightarrow> ReadRequest \<Rightarrow> exn + StatusCode \<times> ReadResponse" where
  "Read s request =
     (let path = read_path request;
          offset = read_offset request;
          sz = read_size request
      in case ifstream_open (storage s) path of
           None \<Rightarrow> Inr (NOT_FOUND, \<lparr>read_data = [], bytes_read = 0\<rparr>)
         | Some f \<Rightarrow>
             if sz < 0 \<or> string_max_size s < sz then Inl length_error
             else if heap_limit s < sz then Inl bad_alloc
             else
               let buffer = replicate (nat sz) NUL;
                   got = seekg_read f offset sz
               in Inr (OK, \<lparr>read_data = got @ drop (length got) buffer,
                            bytes_read = int (length got)\<rparr>))"

text \<open>The lookup at the head of \<open>Write\<close>: \<open>server_mtime\<close> stays 0 when the table has no entry.\<close>

definition server_mtime :: "(string \<Rightarrow> int option) \<Rightarrow> string \<Rightarrow> int" where
  "server_mtime versions path = (case versions path of None \<Rightarrow> 0 | Some t \<Rightarrow> t)"

text \<open>
  The file part of \<open>Write\<close>: open for reading and writing, create when that fails,
  seek, write. No step is checked.
\<close>

definition fstream_write :: "filesystem \<Rightarrow> int \<Rightarrow> string \<Rightarrow> int \<Rightarrow> string \<Rightarrow> filesystem" where
  "fstream_write fs now path offset data =
     (let fs1 = (if fstream_open_inout fs path then fs
                 else fstream_open_out_close fs now path)
      in if fstream_open_inout fs1 path
         then (case files fs1 (c_str path) of
                 None \<Rightarrow> fs1
               | Some f \<Rightarrow>
                   if offset < 0 \<or> data = [] then fs1
                   else fs1\<lparr>files := (files fs1)(c_str path \<mapsto>
                          f\<lparr>content := seekp_write (content f) offset data,
                            st_mtime := now\<rparr>)\<rparr>)
         else fs1)"

text \<open>\<open>DFSServerImpl::Write\<close>.\<close>

definition Write :: "server \<Rightarrow> int \<Rightarrow> WriteRequest \<Rightarrow> StatusCode \<times> WriteResponse \<times> server" where
  "Write s now request =
     (let path = write_path request;
          offset = write_offset request;
          data = write_data request;
          client_mtime = write_mtime request
      in if client_mtime < server_mtime (file_versions s) path
         then (FAILED_PRECONDITION, \<lparr>bytes_written = 0\<rparr>, s)
         else (OK, \<lparr>bytes_written = int (length data)\<rparr>,
               s\<lparr>storage := fstream_write (storage s) now path offset data,
                 file_versions := (file_versions s)(path \<mapsto> now)\<rparr>))"

text \<open>\<open>DFSServerImpl::Unlink\<close>.\<close>

definition Unlink :: "server \<Rightarrow> UnlinkRequest \<Rightarrow> StatusCode \<times> UnlinkResponse \<times> server" where
  "Unlink s request =
     (let path = unlink_path request;
          (result, fs) = std_remove (storage s) path
      in if result = 0
         then (OK, \<lparr>success = True\<rparr>, s\<lparr>storage := fs\<rparr>)
         else (NOT_FOUND, \<lparr>success = False\<rparr>, s\<lparr>storage := fs\<rparr>))"

text \<open>\<open>DFSServerImpl::GetAttr\<close>.\<close>

definition GetAttr :: "server \<Rightarrow> GetAttrRequest \<Rightarrow> StatusCode \<times> GetAttrResponse" where
  "GetAttr s request =
     (let path = getattr_path request
      in case stat (storage s) path of
           Some (sz, mt) \<Rightarrow> (OK, \<lparr>attr_exists = True, attr_size = sz, attr_mtime = mt\<rparr>)
         | None \<Rightarrow> (NOT_FOUND, \<lparr>attr_exists = False, attr_size = 0, attr_mtime = 0\<rparr>))"

section \<open>Calls in sequence\<close>

text \<open>
  The server handles one call after another; a call comes with the reading of the
  server clock at which it runs. \<open>Read\<close> and \<open>GetAttr\<close> leave the state as it is.
\<close>

datatype call =
    ReadCall ReadRequest
  | WriteCall WriteRequest
  | UnlinkCall UnlinkRequest
  | GetAttrCall GetAttrRequest

fun serve :: "server \<Rightarrow> int \<times> call \<Rightarrow> server" where
  "serve s (now, ReadCall request) = s"
| "serve s (now, WriteCall request) = snd (snd (Write s now request))"
| "serve s (now, UnlinkCall request) = snd (snd (Unlink s request))"
| "serve s (now, GetAttrCall request) = s"

fun run :: "server \<Rightarrow> (int \<times> call) list \<Rightarrow> server" where
  "run s [] = s"
| "run s (c # cs) = run (serve s c) cs"

text \<open>The call is a \<open>Write\<close> to \<open>path\<close> that the server, in state \<open>s\<close>, accepts.\<close>

fun accepts :: "server \<Rightarrow> string \<Rightarrow> int \<times> call \<Rightarrow> bool" where
  "accepts s path (now, WriteCall request) =
     (write_path request = path \<and> fst (Write s now request) = OK)"
| "accepts s path (now, ReadCall request) = False"
| "accepts s path (now, UnlinkCall request) = False"
| "accepts s path (now, GetAttrCall request) = False"

text \<open>The server clock readings at which the writes to \<open>path\<close> were accepted, in order.\<close>

fun acceptance_times :: "server \<Rightarrow> string \<Rightarrow> (int \<times> call) list \<Rightarrow> int list" where
  "acceptance_times s path [] = []"
| "acceptance_times s path (c # cs) =
     (if accepts s path c then [fst c] else []) @ acceptance_times (serve s c) path cs"

section \<open>The kernel adaptation layer\<close>







section \<open>Two states of the server\<close>

text \<open>
  The states the examples below run from. \<open>empty_server\<close> is the server as it starts in
  an empty directory: no file, no recorded version, and a name can be created when it is
  a plain name in that directory. \<open>hello_server\<close> is that server after it accepted, at
  server time 100, the write of \<open>hello\<close> to \<open>a.txt\<close>. Both run with a \<open>max_size()\<close> of
  \<open>2^62 - 1\<close> and can allocate strings of up to \<open>2^30\<close> bytes.
\<close>

definition top_level :: "string \<Rightarrow> bool" where
  "top_level name = (name \<noteq> [] \<and> CHR ''/'' \<notin> set name)"

definition empty_server :: server where
  "empty_server =
     \<lparr>storage = \<lparr>files = Map.empty, dir_writable = top_level\<rparr>,
      file_versions = Map.empty,
      string_max_size = 4611686018427387903,
      heap_limit = 1073741824\<rparr>"

definition hello_server :: server where
  "hello_server =
     \<lparr>storage =
        \<lparr>files = [''a.txt'' \<mapsto>
                    \<lparr>content = ''hello'', st_mtime = 100, readable = True, writable = True\<rparr>],
         dir_writable = top_level\<rparr>,
      file_versions = [''a.txt'' \<mapsto> 100],
      string_max_size = 4611686018427387903,
      heap_limit = 1073741824\<rparr>"

section \<open>Properties\<close>

subsection \<open>What each handler returns\<close>

lemma Write_rejected:
  "write_mtime request < server_mtime (file_versions s) (write_path request) \<Longrightarrow>
   Write s now request = (FAILED_PRECONDITION, \<lparr>bytes_written = 0\<rparr>, s)"
  by (simp add: Write_def Let_def)

lemma Write_accepted:
  "\<not> write_mtime request < server_mtime (file_versions s) (write_path request) \<Longrightarrow>
   Write s now request =
     (OK, \<lparr>bytes_written = int (length (write_data request))\<rparr>,
      s\<lparr>storage := fstream_write (storage s) now (write_path request)
                    (write_offset request) (write_data request),
        file_versions := (file_versions s)(write_path request \<mapsto> now)\<rparr>)"
  by (simp add: Write_def Let_def)

lemma Write_status:
  "fst (Write s now request) =
     (if write_mtime request < server_mtime (file_versions s) (write_path request)
      then FAILED_PRECONDITION else OK)"
  by (simp add: Write_def Let_def)

lemma Write_OK_iff:
  "fst (Write s now request) = OK \<longleftrightarrow>
   server_mtime (file_versions s) (write_path request) \<le> write_mtime request"
  by (auto simp: Write_status)

lemma Write_file_versions:
  "file_versions (snd (snd (Write s now request))) =
     (if write_mtime request < server_mtime (file_versions s) (write_path request)
      then file_versions s
      else (file_versions s)(write_path request \<mapsto> now))"
  by (simp add: Write_def Let_def)

lemma fstream_write_unopenable:
  "files fs (c_str path) = None \<Longrightarrow> \<not> dir_writable fs (c_str path) \<Longrightarrow>
   fstream_write fs now path offset data = fs"
  by (simp add: fstream_write_def fstream_open_inout_def fstream_open_out_close_def)

lemma fstream_write_unwritable:
  "files fs (c_str path) = Some f \<Longrightarrow> \<not> writable f \<Longrightarrow>
   fstream_write fs now path offset data = fs"
  by (simp add: fstream_write_def fstream_open_inout_def fstream_open_out_close_def)

lemma fstream_write_negative_offset:
  "files fs (c_str path) = Some f \<Longrightarrow> readable f \<Longrightarrow> writable f \<Longrightarrow> offset < 0 \<Longrightarrow>
   fstream_write fs now path offset data = fs"
  by (simp add: fstream_write_def fstream_open_inout_def)

lemma fstream_write_fresh:
  "files fs (c_str path) = None \<Longrightarrow> dir_writable fs (c_str path) \<Longrightarrow>
   files (fstream_write fs now path 0 data) (c_str path)
     = Some \<lparr>content = data, st_mtime = now, readable = True, writable = True\<rparr>"
  by (simp add: fstream_write_def fstream_open_inout_def fstream_open_out_close_def
      seekp_write_def Let_def)

lemma length_seekg_read: "length (seekg_read f offset sz) \<le> nat sz"
  by (simp add: seekg_read_def)

lemma Read_OK:
  "ifstream_open (storage s) (read_path request) = Some f \<Longrightarrow> 0 \<le> read_size request \<Longrightarrow>
   read_size request \<le> string_max_size s \<Longrightarrow> read_size request \<le> heap_limit s \<Longrightarrow>
   Read s request =
     Inr (OK, \<lparr>read_data = seekg_read f (read_offset request) (read_size request)
                   @ replicate (nat (read_size request)
                       - length (seekg_read f (read_offset request) (read_size request))) NUL,
               bytes_read = int (length (seekg_read f (read_offset request) (read_size request)))\<rparr>)"
  by (simp add: Read_def Let_def)

lemma Read_NOT_FOUND:
  "ifstream_open (storage s) (read_path request) = None \<Longrightarrow>
   Read s request = Inr (NOT_FOUND, \<lparr>read_data = [], bytes_read = 0\<rparr>)"
  by (simp add: Read_def Let_def)

lemma Read_throws:
  "ifstream_open (storage s) (read_path request) = Some f \<Longrightarrow>
   read_size request < 0 \<or> string_max_size s < read_size request \<Longrightarrow>
   Read s request = Inl length_error"
  by (simp add: Read_def Let_def)

lemma Read_bad_alloc:
  "ifstream_open (storage s) (read_path request) = Some f \<Longrightarrow> 0 \<le> read_size request \<Longrightarrow>
   read_size request \<le> string_max_size s \<Longrightarrow> heap_limit s < read_size request \<Longrightarrow>
   Read s request = Inl bad_alloc"
  by (simp add: Read_def Let_def)

lemma Read_OK_cases:
  assumes "Read s request = Inr (OK, response)"
  obtains f where "ifstream_open (storage s) (read_path request) = Some f"
    and "0 \<le> read_size request"
    and "read_size request \<le> string_max_size s"
    and "read_size request \<le> heap_limit s"
  using assms by (auto simp: Read_def Let_def split: option.splits if_splits)

lemma Unlink_removed:
  "fst (std_remove (storage s) (unlink_path request)) = 0 \<Longrightarrow>
   Unlink s request =
     (OK, \<lparr>success = True\<rparr>, s\<lparr>storage := snd (std_remove (storage s) (unlink_path request))\<rparr>)"
  by (simp add: Unlink_def Let_def split_beta)

lemma Unlink_not_removed:
  "fst (std_remove (storage s) (unlink_path request)) \<noteq> 0 \<Longrightarrow>
   Unlink s request =
     (NOT_FOUND, \<lparr>success = False\<rparr>,
      s\<lparr>storage := snd (std_remove (storage s) (unlink_path request))\<rparr>)"
  by (simp add: Unlink_def Let_def split_beta)

lemma Unlink_file_versions: "file_versions (snd (snd (Unlink s request))) = file_versions s"
  by (simp add: Unlink_def Let_def split_beta)

lemma std_remove_absent:
  "files fs (c_str path) = None \<Longrightarrow> std_remove fs path = (- 1, fs)"
  by (simp add: std_remove_def)

lemma std_remove_gone:
  "fst (std_remove fs path) = 0 \<Longrightarrow> files (snd (std_remove fs path)) (c_str path) = None"
  by (simp add: std_remove_def split: option.splits if_splits)

lemma GetAttr_absent:
  "files (storage s) (c_str (getattr_path request)) = None \<Longrightarrow>
   GetAttr s request = (NOT_FOUND, \<lparr>attr_exists = False, attr_size = 0, attr_mtime = 0\<rparr>)"
  by (simp add: GetAttr_def stat_def)





subsection \<open>The version table along a sequence of calls\<close>

lemma serve_file_versions:
  "file_versions (serve s c) path =
     (if accepts s path c then Some (fst c) else file_versions s path)"
proof (cases c)
  case (Pair now x)
  show ?thesis
  proof (cases x)
    case (WriteCall request)
    with Pair show ?thesis
      by (simp add: Write_file_versions Write_status)
  next
    case (UnlinkCall request)
    with Pair show ?thesis
      by (simp add: Unlink_file_versions)
  qed (simp_all add: Pair)
qed

lemma run_file_versions:
  "file_versions (run s cs) path =
     (if acceptance_times s path cs = [] then file_versions s path
      else Some (last (acceptance_times s path cs)))"
proof (induction cs arbitrary: s)
  case Nil
  show ?case by simp
next
  case (Cons c cs)
  show ?case
    by (simp add: Cons.IH serve_file_versions)
qed

lemma acceptance_times_append:
  "acceptance_times s path (cs1 @ cs2) =
     acceptance_times s path cs1 @ acceptance_times (run s cs1) path cs2"
  by (induction cs1 arbitrary: s) simp_all

lemma set_acceptance_times: "set (acceptance_times s path cs) \<subseteq> fst ` set cs"
  by (induction cs arbitrary: s) auto

lemma file_versions_monotone:
  assumes start: "\<forall>t0. file_versions s path = Some t0 \<longrightarrow> (\<forall>c \<in> set (cs1 @ cs2). t0 \<le> fst c)"
    and clock: "sorted (map fst (cs1 @ cs2))"
    and before: "file_versions (run s cs1) path = Some t"
  shows "\<exists>t'. file_versions (run s (cs1 @ cs2)) path = Some t' \<and> t \<le> t'"
proof -
  let ?A1 = "acceptance_times s path cs1"
  let ?A2 = "acceptance_times (run s cs1) path cs2"
  have after: "file_versions (run s (cs1 @ cs2)) path =
      (if ?A1 @ ?A2 = [] then file_versions s path else Some (last (?A1 @ ?A2)))"
    by (simp add: run_file_versions acceptance_times_append)
  show ?thesis
  proof (cases "?A2 = []")
    case True
    then have "file_versions (run s (cs1 @ cs2)) path = file_versions (run s cs1) path"
      by (simp add: run_file_versions acceptance_times_append)
    with before show ?thesis by simp
  next
    case False
    then have "last ?A2 \<in> set ?A2" by (rule last_in_set)
    then have in2: "last ?A2 \<in> fst ` set cs2"
      using set_acceptance_times by blast
    have "t \<le> last ?A2"
    proof (cases "?A1 = []")
      case True
      with before have "file_versions s path = Some t"
        by (simp add: run_file_versions)
      with start have "\<forall>c \<in> set cs2. t \<le> fst c" by simp
      with in2 show ?thesis by auto
    next
      case A1: False
      with before have t: "t = last ?A1"
        by (simp add: run_file_versions)
      from A1 have "last ?A1 \<in> set ?A1" by (rule last_in_set)
      then have in1: "last ?A1 \<in> fst ` set cs1"
        using set_acceptance_times by blast
      from clock have "\<forall>x \<in> fst ` set cs1. \<forall>y \<in> fst ` set cs2. x \<le> y"
        by (simp add: sorted_append)
      with in1 in2 t show ?thesis by blast
    qed
    with after False show ?thesis by simp
  qed
qed

subsection \<open>The example states\<close>

lemma c_str_a_txt: "c_str ''a.txt'' = ''a.txt''"
  by (simp add: c_str_def NUL_def)

lemma hello_server_written:
  "Write empty_server 100
     \<lparr>write_path = ''a.txt'', write_offset = 0, write_data = ''hello'', write_mtime = 100\<rparr>
   = (OK, \<lparr>bytes_written = 5\<rparr>, hello_server)"
  by (simp add: Write_def Let_def server_mtime_def empty_server_def hello_server_def
      fstream_write_def fstream_open_inout_def fstream_open_out_close_def c_str_a_txt
      top_level_def seekp_write_def)

lemma Read_hello:
  "Read hello_server \<lparr>read_path = ''a.txt'', read_offset = 0, read_size = 5\<rparr>
   = Inr (OK, \<lparr>read_data = ''hello'', bytes_read = 5\<rparr>)"
  by (simp add: Read_def Let_def hello_server_def ifstream_open_def c_str_a_txt seekg_read_def)

lemma Read_hello_short:
  "Read hello_server \<lparr>read_path = ''a.txt'', read_offset = 3, read_size = 10\<rparr>
   = Inr (OK, \<lparr>read_data = ''lo'' @ replicate 8 NUL, bytes_read = 2\<rparr>)"
  by (simp add: Read_def Let_def hello_server_def ifstream_open_def c_str_a_txt seekg_read_def)

subsection \<open>The admission gate of Write\<close>

text \<open>
  C1, as amended. \<open>Write\<close> is accepted exactly when the declared time \<open>client_mtime\<close>
  is at least the recorded version time of the path, where a path with no record counts
  as recorded at time 0 (the handler's \<open>server_mtime = 0\<close>): with a record \<open>t\<close> the
  write passes iff \<open>t \<le> client_mtime\<close>, with none iff \<open>0 \<le> client_mtime\<close>. Every other
  call ends with \<open>FAILED_PRECONDITION\<close>; then the state of the server is the one before
  the call, so every \<open>Read\<close> and every \<open>GetAttr\<close> (contents, size, mtime) answers as
  before.
\<close>

theorem Write_admission_gate:
  "(fst (Write s now request) = OK \<longleftrightarrow>
      server_mtime (file_versions s) (write_path request) \<le> write_mtime request)
   \<and> (fst (Write s now request) \<noteq> OK \<longleftrightarrow> fst (Write s now request) = FAILED_PRECONDITION)
   \<and> (\<forall>t. file_versions s (write_path request) = Some t \<longrightarrow>
          (fst (Write s now request) = OK \<longleftrightarrow> t \<le> write_mtime request))
   \<and> (file_versions s (write_path request) = None \<longrightarrow>
          (fst (Write s now request) = OK \<longleftrightarrow> 0 \<le> write_mtime request))
   \<and> (write_mtime request < server_mtime (file_versions s) (write_path request) \<longrightarrow>
          fst (Write s now request) = FAILED_PRECONDITION
          \<and> snd (snd (Write s now request)) = s
          \<and> (\<forall>r. Read (snd (snd (Write s now request))) r = Read s r)
          \<and> (\<forall>g. GetAttr (snd (snd (Write s now request))) g = GetAttr s g))"
proof -
  have gate: "fst (Write s now request) = OK \<longleftrightarrow>
      server_mtime (file_versions s) (write_path request) \<le> write_mtime request"
    by (rule Write_OK_iff)
  have codes: "fst (Write s now request) \<noteq> OK \<longleftrightarrow> fst (Write s now request) = FAILED_PRECONDITION"
    by (simp add: Write_status)
  have recorded: "\<forall>t. file_versions s (write_path request) = Some t \<longrightarrow>
          (fst (Write s now request) = OK \<longleftrightarrow> t \<le> write_mtime request)"
    by (simp add: Write_OK_iff server_mtime_def)
  have absent: "file_versions s (write_path request) = None \<longrightarrow>
          (fst (Write s now request) = OK \<longleftrightarrow> 0 \<le> write_mtime request)"
    by (simp add: Write_OK_iff server_mtime_def)
  have stale: "write_mtime request < server_mtime (file_versions s) (write_path request) \<longrightarrow>
          fst (Write s now request) = FAILED_PRECONDITION
          \<and> snd (snd (Write s now request)) = s
          \<and> (\<forall>r. Read (snd (snd (Write s now request))) r = Read s r)
          \<and> (\<forall>g. GetAttr (snd (snd (Write s now request))) g = GetAttr s g)"
    by (simp add: Write_rejected)
  from gate codes recorded absent stale show ?thesis by blast
qed

text \<open>
  The scenario of the specification: \<open>a.txt\<close> holds \<open>hello\<close>, recorded at 100. A write
  declared at 50 is rejected and a read still returns \<open>hello\<close>; a write declared at
  100 passes; on the empty server a write declared at 0 passes.
\<close>

theorem Write_admission_gate_witness:
  "fst (Write hello_server 2000
      \<lparr>write_path = ''a.txt'', write_offset = 0, write_data = ''HELLO'', write_mtime = 50\<rparr>)
     = FAILED_PRECONDITION
   \<and> Read (snd (snd (Write hello_server 2000
      \<lparr>write_path = ''a.txt'', write_offset = 0, write_data = ''HELLO'', write_mtime = 50\<rparr>)))
        \<lparr>read_path = ''a.txt'', read_offset = 0, read_size = 5\<rparr>
     = Inr (OK, \<lparr>read_data = ''hello'', bytes_read = 5\<rparr>)
   \<and> fst (Write hello_server 2000
      \<lparr>write_path = ''a.txt'', write_offset = 0, write_data = ''HELLO'', write_mtime = 100\<rparr>)
     = OK
   \<and> fst (Write empty_server 2000
      \<lparr>write_path = ''a.txt'', write_offset = 0, write_data = ''hello'', write_mtime = 0\<rparr>)
     = OK"
  using Write_admission_gate [of hello_server 2000
      "\<lparr>write_path = ''a.txt'', write_offset = 0, write_data = ''HELLO'', write_mtime = 50\<rparr>"]
    Write_admission_gate [of hello_server 2000
      "\<lparr>write_path = ''a.txt'', write_offset = 0, write_data = ''HELLO'', write_mtime = 100\<rparr>"]
    Write_admission_gate [of empty_server 2000
      "\<lparr>write_path = ''a.txt'', write_offset = 0, write_data = ''hello'', write_mtime = 0\<rparr>"]
  by (simp add: server_mtime_def hello_server_def empty_server_def Read_hello [unfolded hello_server_def])

text \<open>
  The claim as first stated fails where it takes a path with no record to have no gate:
  on the empty server, which has no record for \<open>a.txt\<close>, a write declared at -1 is
  rejected as stale.
\<close>

theorem Write_admission_gate_counterexample:
  "file_versions empty_server ''a.txt'' = None
   \<and> fst (Write empty_server 2000
        \<lparr>write_path = ''a.txt'', write_offset = 0, write_data = ''hello'', write_mtime = - 1\<rparr>)
       = FAILED_PRECONDITION"
  by (simp add: Write_status server_mtime_def empty_server_def)

text \<open>
  C2, as amended. The record holds server times, not declared times. Along any sequence
  of calls in which at least one write to the path was accepted, a later write to that
  path is accepted whenever its declared time is at least the server clock reading of
  every earlier acceptance.
\<close>

theorem Write_after_accepted_writes:
  assumes some: "acceptance_times s path calls \<noteq> []"
    and later: "\<forall>t \<in> set (acceptance_times s path calls). t \<le> write_mtime request"
    and same: "write_path request = path"
  shows "fst (Write (run s calls) now request) = OK"
proof -
  from some have recorded:
    "file_versions (run s calls) path = Some (last (acceptance_times s path calls))"
    by (simp add: run_file_versions)
  from some have "last (acceptance_times s path calls) \<in> set (acceptance_times s path calls)"
    by (rule last_in_set)
  with later have "last (acceptance_times s path calls) \<le> write_mtime request"
    by blast
  with recorded same show ?thesis
    by (simp add: Write_OK_iff server_mtime_def)
qed

text \<open>
  After one write accepted at server time 1000, a write declared at 1000 passes.
\<close>

theorem Write_after_accepted_writes_witness:
  "acceptance_times empty_server ''a.txt''
      [(1000, WriteCall \<lparr>write_path = ''a.txt'', write_offset = 0,
                         write_data = ''hello'', write_mtime = 100\<rparr>)] = [1000]
   \<and> fst (Write (run empty_server
        [(1000, WriteCall \<lparr>write_path = ''a.txt'', write_offset = 0,
                           write_data = ''hello'', write_mtime = 100\<rparr>)])
      1001
      \<lparr>write_path = ''a.txt'', write_offset = 0, write_data = ''HELLO'', write_mtime = 1000\<rparr>)
     = OK"
proof -
  have times: "acceptance_times empty_server ''a.txt''
      [(1000, WriteCall \<lparr>write_path = ''a.txt'', write_offset = 0,
                         write_data = ''hello'', write_mtime = 100\<rparr>)] = [1000]"
    by (simp add: Write_status server_mtime_def empty_server_def)
  from times Write_after_accepted_writes [of empty_server "''a.txt''"
      "[(1000, WriteCall \<lparr>write_path = ''a.txt'', write_offset = 0,
                          write_data = ''hello'', write_mtime = 100\<rparr>)]"
      "\<lparr>write_path = ''a.txt'', write_offset = 0, write_data = ''HELLO'', write_mtime = 1000\<rparr>"
      1001]
  show ?thesis by simp
qed

text \<open>
  The claim as first stated fails. The server clock shows 1000 when it accepts a write
  declared at 100; the next write to the path declares 200, more than every declared
  time accepted so far, and is rejected, since 200 is less than the recorded 1000.
\<close>

theorem Write_after_accepted_writes_counterexample:
  "fst (Write empty_server 1000
      \<lparr>write_path = ''a.txt'', write_offset = 0, write_data = ''hello'', write_mtime = 100\<rparr>) = OK
   \<and> (100 :: int) < 200
   \<and> fst (Write (snd (snd (Write empty_server 1000
        \<lparr>write_path = ''a.txt'', write_offset = 0, write_data = ''hello'', write_mtime = 100\<rparr>)))
      1001
      \<lparr>write_path = ''a.txt'', write_offset = 0, write_data = ''HELLO'', write_mtime = 200\<rparr>)
     = FAILED_PRECONDITION"
  by (simp add: Write_status Write_file_versions server_mtime_def empty_server_def)

text \<open>
  C3. An accepted \<open>Write\<close> sets the record of its path to \<open>now\<close>, the server clock
  reading at acceptance, whatever time the client declared (so not to the declared time
  when the two differ), and leaves every other record alone. The admission test reads
  the declared time only: it passes iff the declared time is not below the recorded
  one, at every server time.
\<close>

theorem Write_records_server_time:
  "(fst (Write s now request) = OK \<longrightarrow>
      file_versions (snd (snd (Write s now request))) (write_path request) = Some now
      \<and> (now \<noteq> write_mtime request \<longrightarrow>
           file_versions (snd (snd (Write s now request))) (write_path request)
             \<noteq> Some (write_mtime request))
      \<and> (\<forall>p. p \<noteq> write_path request \<longrightarrow>
           file_versions (snd (snd (Write s now request))) p = file_versions s p))
   \<and> (fst (Write s now request) = OK \<longleftrightarrow>
        \<not> write_mtime request < server_mtime (file_versions s) (write_path request))
   \<and> fst (Write s now request) = fst (Write s now' request)"
proof -
  have stored: "fst (Write s now request) = OK \<longrightarrow>
      file_versions (snd (snd (Write s now request))) (write_path request) = Some now
      \<and> (now \<noteq> write_mtime request \<longrightarrow>
           file_versions (snd (snd (Write s now request))) (write_path request)
             \<noteq> Some (write_mtime request))
      \<and> (\<forall>p. p \<noteq> write_path request \<longrightarrow>
           file_versions (snd (snd (Write s now request))) p = file_versions s p)"
    by (simp add: Write_status Write_file_versions)
  have test: "fst (Write s now request) = OK \<longleftrightarrow>
        \<not> write_mtime request < server_mtime (file_versions s) (write_path request)"
    by (simp add: Write_status)
  have clock: "fst (Write s now request) = fst (Write s now' request)"
    by (simp add: Write_status)
  from stored test clock show ?thesis by blast
qed

text \<open>A write declared at 150 and accepted at server time 2000 records 2000, not 150.\<close>

theorem Write_records_server_time_witness:
  "fst (Write hello_server 2000
      \<lparr>write_path = ''a.txt'', write_offset = 0, write_data = ''HELLO'', write_mtime = 150\<rparr>) = OK
   \<and> file_versions (snd (snd (Write hello_server 2000
      \<lparr>write_path = ''a.txt'', write_offset = 0, write_data = ''HELLO'', write_mtime = 150\<rparr>)))
       ''a.txt'' = Some 2000
   \<and> file_versions (snd (snd (Write hello_server 2000
      \<lparr>write_path = ''a.txt'', write_offset = 0, write_data = ''HELLO'', write_mtime = 150\<rparr>)))
       ''a.txt'' \<noteq> Some 150"
  using Write_records_server_time [of hello_server 2000
      "\<lparr>write_path = ''a.txt'', write_offset = 0, write_data = ''HELLO'', write_mtime = 150\<rparr>" 2000]
  by (simp add: server_mtime_def hello_server_def)

subsection \<open>Reading back what was written\<close>

text \<open>
  C4, as amended. For every payload that a string of the server can hold (its length
  within the two limits of the process) and every path that names no file and at which
  the store lets the server create one, an accepted \<open>Write\<close> of the payload at offset 0
  returns \<open>bytes_written\<close> equal to the length of the payload, and a \<open>Read\<close> of that
  many bytes at offset 0 then returns exactly the payload with \<open>bytes_read\<close> equal to
  its length.
\<close>

theorem Write_Read_round_trip:
  assumes fresh: "files (storage s) (c_str path) = None"
    and creatable: "dir_writable (storage s) (c_str path)"
    and holds: "int (length data) \<le> string_max_size s" "int (length data) \<le> heap_limit s"
    and accepted: "fst (Write s now
        \<lparr>write_path = path, write_offset = 0, write_data = data, write_mtime = t\<rparr>) = OK"
  shows "bytes_written (fst (snd (Write s now
        \<lparr>write_path = path, write_offset = 0, write_data = data, write_mtime = t\<rparr>)))
      = int (length data)
    \<and> Read (snd (snd (Write s now
        \<lparr>write_path = path, write_offset = 0, write_data = data, write_mtime = t\<rparr>)))
        \<lparr>read_path = path, read_offset = 0, read_size = int (length data)\<rparr>
      = Inr (OK, \<lparr>read_data = data, bytes_read = int (length data)\<rparr>)"
proof -
  let ?w = "\<lparr>write_path = path, write_offset = 0, write_data = data, write_mtime = t\<rparr>"
  from accepted have gate: "\<not> write_mtime ?w < server_mtime (file_versions s) (write_path ?w)"
    by (simp add: Write_status split: if_splits)
  note acc = Write_accepted [OF gate, of now]
  have count: "bytes_written (fst (snd (Write s now ?w))) = int (length data)"
    by (simp add: acc)
  have opened: "ifstream_open (storage (snd (snd (Write s now ?w)))) path
      = Some \<lparr>content = data, st_mtime = now, readable = True, writable = True\<rparr>"
    by (simp add: acc ifstream_open_def fstream_write_fresh [OF fresh creatable])
  have "Read (snd (snd (Write s now ?w)))
        \<lparr>read_path = path, read_offset = 0, read_size = int (length data)\<rparr>
      = Inr (OK, \<lparr>read_data = data, bytes_read = int (length data)\<rparr>)"
    using opened holds by (simp add: acc Read_def Let_def seekg_read_def)
  with count show ?thesis by simp
qed

text \<open>On the empty server, \<open>hello\<close> written to \<open>a.txt\<close> reads back as \<open>hello\<close>.\<close>

theorem Write_Read_round_trip_witness:
  "files (storage empty_server) (c_str ''a.txt'') = None
   \<and> dir_writable (storage empty_server) (c_str ''a.txt'')
   \<and> int (length ''hello'') \<le> string_max_size empty_server
   \<and> int (length ''hello'') \<le> heap_limit empty_server
   \<and> Read (snd (snd (Write empty_server 100
        \<lparr>write_path = ''a.txt'', write_offset = 0, write_data = ''hello'', write_mtime = 100\<rparr>)))
        \<lparr>read_path = ''a.txt'', read_offset = 0, read_size = 5\<rparr>
      = Inr (OK, \<lparr>read_data = ''hello'', bytes_read = 5\<rparr>)"
  using Write_Read_round_trip [of empty_server "''a.txt''" "''hello''" 100 100]
  by (simp add: empty_server_def c_str_a_txt top_level_def Write_status server_mtime_def)

text \<open>
  The claim as first stated fails on a path where no file can be created. The directory
  \<open>nodir\<close> does not exist: the write of \<open>hello\<close> to \<open>nodir/a.txt\<close> is accepted and
  answers \<open>OK\<close> with \<open>bytes_written = 5\<close>, the store is as before, and the read fails
  with \<open>NOT_FOUND\<close>.
\<close>

theorem Write_Read_round_trip_counterexample:
  "files (storage empty_server) (c_str ''nodir/a.txt'') = None
   \<and> Write empty_server 2000
        \<lparr>write_path = ''nodir/a.txt'', write_offset = 0, write_data = ''hello'', write_mtime = 2000\<rparr>
       = (OK, \<lparr>bytes_written = 5\<rparr>,
          empty_server\<lparr>file_versions := [''nodir/a.txt'' \<mapsto> 2000]\<rparr>)
   \<and> Read (empty_server\<lparr>file_versions := [''nodir/a.txt'' \<mapsto> 2000]\<rparr>)
        \<lparr>read_path = ''nodir/a.txt'', read_offset = 0, read_size = 5\<rparr>
       = Inr (NOT_FOUND, \<lparr>read_data = [], bytes_read = 0\<rparr>)"
  by (simp add: Write_def Let_def server_mtime_def empty_server_def fstream_write_def
      fstream_open_inout_def fstream_open_out_close_def c_str_def NUL_def top_level_def
      Read_def ifstream_open_def)

subsection \<open>Read\<close>

text \<open>
  C5, as amended. When the file does not open, \<open>Read\<close> fails with \<open>NOT_FOUND\<close>. When it
  opens and \<open>size\<close> is not negative and within the two limits of the process on a
  string, \<open>Read\<close> answers \<open>OK\<close>: \<open>bytes_read\<close> is the number of bytes the file has from
  \<open>offset\<close> on, at most \<open>size\<close> (0 at or past the end, and 0 for a negative offset),
  and the first \<open>bytes_read\<close> bytes of \<open>data\<close> are those bytes of the file; a short read
  is no error. On a file that opens, a \<open>size\<close> that is negative or above \<open>max_size()\<close>
  makes the constructor of the buffer throw \<open>std::length_error\<close>, and one that the
  allocator cannot serve makes it throw \<open>std::bad_alloc\<close>. Reading offset 3, size 10 of
  a file holding \<open>hello\<close>, on a server that can build a string of ten bytes, returns
  \<open>bytes_read = 2\<close> and the ten bytes \<open>lo\<close> and eight NUL.
\<close>

theorem Read_short_read:
  "(ifstream_open (storage s) (read_path request) = None \<longrightarrow>
      Read s request = Inr (NOT_FOUND, \<lparr>read_data = [], bytes_read = 0\<rparr>))
   \<and> (\<forall>f. ifstream_open (storage s) (read_path request) = Some f
          \<and> (read_size request < 0 \<or> string_max_size s < read_size request) \<longrightarrow>
        Read s request = Inl length_error)
   \<and> (\<forall>f. ifstream_open (storage s) (read_path request) = Some f
          \<and> 0 \<le> read_size request \<and> read_size request \<le> string_max_size s
          \<and> heap_limit s < read_size request \<longrightarrow>
        Read s request = Inl bad_alloc)
   \<and> (\<forall>f. ifstream_open (storage s) (read_path request) = Some f
          \<and> 0 \<le> read_size request \<and> read_size request \<le> string_max_size s
          \<and> read_size request \<le> heap_limit s \<longrightarrow>
        (\<exists>response. Read s request = Inr (OK, response)
           \<and> bytes_read response
               = (if read_offset request < 0 then 0
                  else min (read_size request)
                         (max 0 (int (length (content f)) - read_offset request)))
           \<and> take (nat (bytes_read response)) (read_data response)
               = (if read_offset request < 0 then []
                  else take (nat (read_size request)) (drop (nat (read_offset request)) (content f)))))
   \<and> (\<forall>f. ifstream_open (storage s) (read_path request) = Some f \<and> content f = ''hello''
          \<and> read_offset request = 3 \<and> read_size request = 10
          \<and> 10 \<le> string_max_size s \<and> 10 \<le> heap_limit s \<longrightarrow>
        Read s request = Inr (OK, \<lparr>read_data = ''lo'' @ replicate 8 NUL, bytes_read = 2\<rparr>))"
proof -
  have absent: "ifstream_open (storage s) (read_path request) = None \<longrightarrow>
      Read s request = Inr (NOT_FOUND, \<lparr>read_data = [], bytes_read = 0\<rparr>)"
    by (simp add: Read_NOT_FOUND)
  have throws: "\<forall>f. ifstream_open (storage s) (read_path request) = Some f
          \<and> (read_size request < 0 \<or> string_max_size s < read_size request) \<longrightarrow>
        Read s request = Inl length_error"
    using Read_throws by blast
  have exhausted: "\<forall>f. ifstream_open (storage s) (read_path request) = Some f
          \<and> 0 \<le> read_size request \<and> read_size request \<le> string_max_size s
          \<and> heap_limit s < read_size request \<longrightarrow>
        Read s request = Inl bad_alloc"
    using Read_bad_alloc by blast
  have reads: "\<forall>f. ifstream_open (storage s) (read_path request) = Some f
          \<and> 0 \<le> read_size request \<and> read_size request \<le> string_max_size s
          \<and> read_size request \<le> heap_limit s \<longrightarrow>
        (\<exists>response. Read s request = Inr (OK, response)
           \<and> bytes_read response
               = (if read_offset request < 0 then 0
                  else min (read_size request)
                         (max 0 (int (length (content f)) - read_offset request)))
           \<and> take (nat (bytes_read response)) (read_data response)
               = (if read_offset request < 0 then []
                  else take (nat (read_size request)) (drop (nat (read_offset request)) (content f))))"
  proof (intro allI impI, elim conjE)
    fix f
    assume f: "ifstream_open (storage s) (read_path request) = Some f"
      and sz: "0 \<le> read_size request"
      and ms: "read_size request \<le> string_max_size s"
      and hl: "read_size request \<le> heap_limit s"
    have count: "int (length (seekg_read f (read_offset request) (read_size request)))
               = (if read_offset request < 0 then 0
                  else min (read_size request)
                         (max 0 (int (length (content f)) - read_offset request)))"
      using sz by (auto simp: seekg_read_def min_def max_def)
    have bytes: "seekg_read f (read_offset request) (read_size request)
               = (if read_offset request < 0 then []
                  else take (nat (read_size request)) (drop (nat (read_offset request)) (content f)))"
      by (simp add: seekg_read_def)
    show "\<exists>response. Read s request = Inr (OK, response)
           \<and> bytes_read response
               = (if read_offset request < 0 then 0
                  else min (read_size request)
                         (max 0 (int (length (content f)) - read_offset request)))
           \<and> take (nat (bytes_read response)) (read_data response)
               = (if read_offset request < 0 then []
                  else take (nat (read_size request)) (drop (nat (read_offset request)) (content f)))"
      using count bytes by (simp add: Read_OK [OF f sz ms hl])
  qed
  have hello: "\<forall>f. ifstream_open (storage s) (read_path request) = Some f \<and> content f = ''hello''
          \<and> read_offset request = 3 \<and> read_size request = 10
          \<and> 10 \<le> string_max_size s \<and> 10 \<le> heap_limit s \<longrightarrow>
        Read s request = Inr (OK, \<lparr>read_data = ''lo'' @ replicate 8 NUL, bytes_read = 2\<rparr>)"
    by (simp add: Read_def Let_def seekg_read_def)
  from absent throws exhausted reads hello show ?thesis by blast
qed

text \<open>
  On \<open>hello_server\<close>: the short read of the scenario, a read at the end of the file, a
  read with a negative size, one with a size above \<open>max_size()\<close>, one with a size the
  allocator cannot serve, and a read of a path that names no file.
\<close>

theorem Read_short_read_witness:
  "Read hello_server \<lparr>read_path = ''a.txt'', read_offset = 3, read_size = 10\<rparr>
     = Inr (OK, \<lparr>read_data = ''lo'' @ replicate 8 NUL, bytes_read = 2\<rparr>)
   \<and> (\<exists>response. Read hello_server \<lparr>read_path = ''a.txt'', read_offset = 5, read_size = 4\<rparr>
         = Inr (OK, response) \<and> bytes_read response = 0)
   \<and> Read hello_server \<lparr>read_path = ''a.txt'', read_offset = 0, read_size = - 1\<rparr>
     = Inl length_error
   \<and> Read hello_server
        \<lparr>read_path = ''a.txt'', read_offset = 0, read_size = 4611686018427387904\<rparr>
     = Inl length_error
   \<and> Read hello_server \<lparr>read_path = ''a.txt'', read_offset = 0, read_size = 2147483648\<rparr>
     = Inl bad_alloc
   \<and> Read hello_server \<lparr>read_path = ''b.txt'', read_offset = 0, read_size = 5\<rparr>
     = Inr (NOT_FOUND, \<lparr>read_data = [], bytes_read = 0\<rparr>)"
proof -
  have a: "ifstream_open (storage hello_server) ''a.txt''
      = Some \<lparr>content = ''hello'', st_mtime = 100, readable = True, writable = True\<rparr>"
    by (simp add: ifstream_open_def hello_server_def c_str_a_txt)
  have b: "ifstream_open (storage hello_server) ''b.txt'' = None"
    by (simp add: ifstream_open_def hello_server_def c_str_def NUL_def)
  have limits: "string_max_size hello_server = 4611686018427387903"
    "heap_limit hello_server = 1073741824"
    by (simp_all add: hello_server_def)
  from a limits Read_short_read [of hello_server
      "\<lparr>read_path = ''a.txt'', read_offset = 3, read_size = 10\<rparr>"]
  have short: "Read hello_server \<lparr>read_path = ''a.txt'', read_offset = 3, read_size = 10\<rparr>
     = Inr (OK, \<lparr>read_data = ''lo'' @ replicate 8 NUL, bytes_read = 2\<rparr>)"
    by simp
  from a limits Read_short_read [of hello_server
      "\<lparr>read_path = ''a.txt'', read_offset = 5, read_size = 4\<rparr>"]
  have eof: "\<exists>response. Read hello_server \<lparr>read_path = ''a.txt'', read_offset = 5, read_size = 4\<rparr>
         = Inr (OK, response) \<and> bytes_read response = 0"
    by auto
  from a limits Read_short_read [of hello_server
      "\<lparr>read_path = ''a.txt'', read_offset = 0, read_size = - 1\<rparr>"]
  have neg: "Read hello_server \<lparr>read_path = ''a.txt'', read_offset = 0, read_size = - 1\<rparr>
     = Inl length_error"
    by simp
  from a limits Read_short_read [of hello_server
      "\<lparr>read_path = ''a.txt'', read_offset = 0, read_size = 4611686018427387904\<rparr>"]
  have long: "Read hello_server
        \<lparr>read_path = ''a.txt'', read_offset = 0, read_size = 4611686018427387904\<rparr>
     = Inl length_error"
    by simp
  from a limits Read_short_read [of hello_server
      "\<lparr>read_path = ''a.txt'', read_offset = 0, read_size = 2147483648\<rparr>"]
  have big: "Read hello_server \<lparr>read_path = ''a.txt'', read_offset = 0, read_size = 2147483648\<rparr>
     = Inl bad_alloc"
    by simp
  from b Read_short_read [of hello_server
      "\<lparr>read_path = ''b.txt'', read_offset = 0, read_size = 5\<rparr>"]
  have missing: "Read hello_server \<lparr>read_path = ''b.txt'', read_offset = 0, read_size = 5\<rparr>
     = Inr (NOT_FOUND, \<lparr>read_data = [], bytes_read = 0\<rparr>)"
    by simp
  from short eof neg long big missing show ?thesis by blast
qed

text \<open>
  The claim as first stated fails in its scenario: the file holds \<open>hello\<close>, and the
  answer to offset 3, size 10 carries ten bytes of data, not the two bytes \<open>lo\<close>.
\<close>

theorem Read_short_read_counterexample:
  "ifstream_open (storage hello_server) ''a.txt''
     = Some \<lparr>content = ''hello'', st_mtime = 100, readable = True, writable = True\<rparr>
   \<and> Read hello_server \<lparr>read_path = ''a.txt'', read_offset = 3, read_size = 10\<rparr>
       = Inr (OK, \<lparr>read_data = ''lo'' @ replicate 8 NUL, bytes_read = 2\<rparr>)
   \<and> Read hello_server \<lparr>read_path = ''a.txt'', read_offset = 3, read_size = 10\<rparr>
       \<noteq> Inr (OK, \<lparr>read_data = ''lo'', bytes_read = 2\<rparr>)"
  by (simp add: Read_def Let_def hello_server_def ifstream_open_def c_str_a_txt seekg_read_def)

text \<open>
  C10. When \<open>Read\<close> answers \<open>OK\<close>, the \<open>data\<close> of the response has exactly \<open>size\<close> bytes,
  however many were read: \<open>bytes_read\<close> lies between 0 and \<open>size\<close>, the bytes of
  \<open>data\<close> from \<open>bytes_read\<close> on are \<open>size - bytes_read\<close> NUL bytes, and the first
  \<open>bytes_read\<close> bytes are what the file gave.
\<close>

theorem Read_data_length:
  assumes "Read s request = Inr (OK, response)"
  shows "int (length (read_data response)) = read_size request
     \<and> 0 \<le> bytes_read response \<and> bytes_read response \<le> read_size request
     \<and> drop (nat (bytes_read response)) (read_data response)
         = replicate (nat (read_size request - bytes_read response)) NUL
     \<and> (\<exists>f. ifstream_open (storage s) (read_path request) = Some f
          \<and> take (nat (bytes_read response)) (read_data response)
              = seekg_read f (read_offset request) (read_size request))"
proof -
  from assms obtain f where f: "ifstream_open (storage s) (read_path request) = Some f"
    and sz: "0 \<le> read_size request"
    and ms: "read_size request \<le> string_max_size s"
    and hl: "read_size request \<le> heap_limit s"
    by (rule Read_OK_cases)
  define got where "got = seekg_read f (read_offset request) (read_size request)"
  have len: "length got \<le> nat (read_size request)"
    unfolding got_def by (rule length_seekg_read)
  from Read_OK [OF f sz ms hl] assms
  have resp: "response = \<lparr>read_data = got @ replicate (nat (read_size request) - length got) NUL,
                         bytes_read = int (length got)\<rparr>"
    by (simp add: got_def)
  have l: "int (length (read_data response)) = read_size request"
    using len sz by (simp add: resp)
  have b: "0 \<le> bytes_read response \<and> bytes_read response \<le> read_size request"
    using len sz by (simp add: resp)
  have pad: "drop (nat (bytes_read response)) (read_data response)
         = replicate (nat (read_size request - bytes_read response)) NUL"
    using len sz by (simp add: resp nat_diff_distrib')
  have pre: "take (nat (bytes_read response)) (read_data response) = got"
    by (simp add: resp)
  from l b pad pre f show ?thesis by (auto simp: got_def)
qed

text \<open>The short read of \<open>hello\<close>: ten bytes of data, the last eight of them NUL.\<close>

theorem Read_data_length_witness:
  "Read hello_server \<lparr>read_path = ''a.txt'', read_offset = 3, read_size = 10\<rparr>
     = Inr (OK, \<lparr>read_data = ''lo'' @ replicate 8 NUL, bytes_read = 2\<rparr>)
   \<and> length (''lo'' @ replicate 8 NUL) = 10
   \<and> drop 2 (''lo'' @ replicate 8 NUL) = replicate 8 NUL"
  using Read_data_length [OF Read_hello_short] Read_hello_short
  by simp

subsection \<open>Unlink\<close>

text \<open>
  C6, as amended. \<open>Unlink\<close> leaves the whole version table as it was. A call changes the
  record of a path only when it is a \<open>Write\<close> to that path that the server accepts, and
  such a write sets the record to the server clock reading at its acceptance. So a
  record once made is never lost, and it never decreases along calls whose server clock
  readings never run backwards and are not below a record already there. A \<open>Write\<close> that
  follows an \<open>Unlink\<close> is judged against the record from before the deletion.
\<close>

theorem Unlink_keeps_file_versions:
  "file_versions (snd (snd (Unlink s request))) = file_versions s
   \<and> (\<forall>c. file_versions (serve s c) path \<noteq> file_versions s path \<longrightarrow>
        accepts s path c \<and> file_versions (serve s c) path = Some (fst c))
   \<and> ((\<forall>t0. file_versions s path = Some t0 \<longrightarrow> (\<forall>c \<in> set (cs1 @ cs2). t0 \<le> fst c))
        \<and> sorted (map fst (cs1 @ cs2)) \<longrightarrow>
        (\<forall>t. file_versions (run s cs1) path = Some t \<longrightarrow>
           (\<exists>t'. file_versions (run s (cs1 @ cs2)) path = Some t' \<and> t \<le> t')))
   \<and> fst (Write (snd (snd (Unlink s request))) now w)
       = (if write_mtime w < server_mtime (file_versions s) (write_path w)
          then FAILED_PRECONDITION else OK)"
proof -
  have kept: "file_versions (snd (snd (Unlink s request))) = file_versions s"
    by (rule Unlink_file_versions)
  have only: "\<forall>c. file_versions (serve s c) path \<noteq> file_versions s path \<longrightarrow>
        accepts s path c \<and> file_versions (serve s c) path = Some (fst c)"
    by (simp add: serve_file_versions)
  have mono: "(\<forall>t0. file_versions s path = Some t0 \<longrightarrow> (\<forall>c \<in> set (cs1 @ cs2). t0 \<le> fst c))
        \<and> sorted (map fst (cs1 @ cs2)) \<longrightarrow>
        (\<forall>t. file_versions (run s cs1) path = Some t \<longrightarrow>
           (\<exists>t'. file_versions (run s (cs1 @ cs2)) path = Some t' \<and> t \<le> t'))"
    using file_versions_monotone [of s path cs1 cs2] by blast
  have gated: "fst (Write (snd (snd (Unlink s request))) now w)
       = (if write_mtime w < server_mtime (file_versions s) (write_path w)
          then FAILED_PRECONDITION else OK)"
    by (simp add: Write_status Unlink_file_versions)
  from kept only mono gated show ?thesis by blast
qed

text \<open>
  Deleting \<open>a.txt\<close> on \<open>hello_server\<close> removes the file and keeps the record 100, so a
  write declared at 50 to the deleted path is rejected. From \<open>hello_server\<close>, whose
  record for \<open>a.txt\<close> is 100, the deletion at 1001 and a write accepted at 1002 take
  the record to a later time.
\<close>

theorem Unlink_keeps_file_versions_witness:
  "files (storage (snd (snd (Unlink hello_server \<lparr>unlink_path = ''a.txt''\<rparr>)))) ''a.txt'' = None
   \<and> file_versions (snd (snd (Unlink hello_server \<lparr>unlink_path = ''a.txt''\<rparr>))) ''a.txt''
       = Some 100
   \<and> fst (Write (snd (snd (Unlink hello_server \<lparr>unlink_path = ''a.txt''\<rparr>))) 2000
        \<lparr>write_path = ''a.txt'', write_offset = 0, write_data = ''new'', write_mtime = 50\<rparr>)
       = FAILED_PRECONDITION
   \<and> file_versions hello_server ''a.txt'' = Some 100
   \<and> sorted [1001 :: int, 1002]
   \<and> accepts hello_server ''a.txt''
        (1000, WriteCall \<lparr>write_path = ''a.txt'', write_offset = 0,
                          write_data = ''hello'', write_mtime = 1000\<rparr>)
   \<and> (\<exists>t'. file_versions (run hello_server
         [(1001, UnlinkCall \<lparr>unlink_path = ''a.txt''\<rparr>),
          (1002, WriteCall \<lparr>write_path = ''a.txt'', write_offset = 0,
                            write_data = ''new'', write_mtime = 1002\<rparr>)]) ''a.txt'' = Some t'
          \<and> 100 \<le> t')"
proof -
  let ?w1 = "\<lparr>write_path = ''a.txt'', write_offset = 0,
              write_data = ''hello'', write_mtime = 1000\<rparr>"
  let ?cs2 = "[(1001 :: int, UnlinkCall \<lparr>unlink_path = ''a.txt''\<rparr>),
               (1002, WriteCall \<lparr>write_path = ''a.txt'', write_offset = 0,
                                write_data = ''new'', write_mtime = 1002\<rparr>)]"
  have removed:
    "files (storage (snd (snd (Unlink hello_server \<lparr>unlink_path = ''a.txt''\<rparr>)))) ''a.txt'' = None"
    by (simp add: Unlink_def Let_def std_remove_def hello_server_def c_str_a_txt top_level_def)
  have start: "file_versions hello_server ''a.txt'' = Some 100"
    by (simp add: hello_server_def)
  have ahead: "\<forall>t0. file_versions hello_server ''a.txt'' = Some t0 \<longrightarrow>
      (\<forall>c \<in> set ([] @ ?cs2). t0 \<le> fst c)"
    by (simp add: hello_server_def)
  have clock: "sorted (map fst ([] @ ?cs2))"
    by simp
  have before: "file_versions (run hello_server []) ''a.txt'' = Some 100"
    by (simp add: hello_server_def)
  have changed: "file_versions (serve hello_server (1000, WriteCall ?w1)) ''a.txt''
      \<noteq> file_versions hello_server ''a.txt''"
    by (simp add: Write_file_versions server_mtime_def hello_server_def)
  note at_hello = Unlink_keeps_file_versions [of hello_server "\<lparr>unlink_path = ''a.txt''\<rparr>"
      "''a.txt''" "[]" ?cs2 2000
      "\<lparr>write_path = ''a.txt'', write_offset = 0, write_data = ''new'', write_mtime = 50\<rparr>"]
  note only = at_hello [THEN conjunct2, THEN conjunct1]
  note mono = at_hello [THEN conjunct2, THEN conjunct2, THEN conjunct1]
  from only [rule_format, OF changed]
  have accepted: "accepts hello_server ''a.txt'' (1000, WriteCall ?w1)"
    by (rule conjunct1)
  from mono [rule_format, OF conjI [OF ahead clock] before]
  have later: "\<exists>t'. file_versions (run hello_server ([] @ ?cs2)) ''a.txt'' = Some t' \<and> 100 \<le> t'" .
  from at_hello [THEN conjunct1] have kept:
    "file_versions (snd (snd (Unlink hello_server \<lparr>unlink_path = ''a.txt''\<rparr>))) ''a.txt'' = Some 100"
    by (simp add: hello_server_def)
  from at_hello [THEN conjunct2, THEN conjunct2, THEN conjunct2] have gated:
    "fst (Write (snd (snd (Unlink hello_server \<lparr>unlink_path = ''a.txt''\<rparr>))) 2000
        \<lparr>write_path = ''a.txt'', write_offset = 0, write_data = ''new'', write_mtime = 50\<rparr>)
       = FAILED_PRECONDITION"
    by (simp add: server_mtime_def hello_server_def)
  from removed kept gated start accepted later show ?thesis
    by simp
qed

text \<open>
  The claim as first stated fails in its monotone advance: the record is overwritten
  with the clock reading and not with the later of the two. The server accepts a write
  when its clock shows 1000; the clock is then set back and shows 900 when the server
  accepts the next write, declared at 1000, and the record of the path goes from 1000
  down to 900.
\<close>

theorem Unlink_keeps_file_versions_counterexample:
  "file_versions (run empty_server
      [(1000, WriteCall \<lparr>write_path = ''a.txt'', write_offset = 0,
                         write_data = ''hello'', write_mtime = 1000\<rparr>)]) ''a.txt'' = Some 1000
   \<and> accepts (run empty_server
      [(1000, WriteCall \<lparr>write_path = ''a.txt'', write_offset = 0,
                         write_data = ''hello'', write_mtime = 1000\<rparr>)]) ''a.txt''
        (900, WriteCall \<lparr>write_path = ''a.txt'', write_offset = 0,
                         write_data = ''HELLO'', write_mtime = 1000\<rparr>)
   \<and> file_versions (run empty_server
      [(1000, WriteCall \<lparr>write_path = ''a.txt'', write_offset = 0,
                         write_data = ''hello'', write_mtime = 1000\<rparr>),
       (900, WriteCall \<lparr>write_path = ''a.txt'', write_offset = 0,
                        write_data = ''HELLO'', write_mtime = 1000\<rparr>)]) ''a.txt'' = Some 900
   \<and> (900 :: int) < 1000"
  by (simp add: Write_status Write_file_versions server_mtime_def empty_server_def)

text \<open>
  C7. \<open>Unlink\<close> answers \<open>OK\<close> with \<open>success = true\<close> exactly when \<open>std::remove\<close> returns
  0, and \<open>NOT_FOUND\<close> with \<open>success = false\<close> otherwise. After a removal that
  succeeded, \<open>GetAttr\<close> on the path answers \<open>NOT_FOUND\<close> with \<open>exists = false\<close>. On a
  path that names no file \<open>Unlink\<close> answers \<open>NOT_FOUND\<close> with \<open>success = false\<close> and
  changes nothing; on a file whose directory entry can be removed it succeeds.
\<close>

theorem Unlink_result:
  "(fst (Unlink s request) = OK \<and> success (fst (snd (Unlink s request)))
      \<longleftrightarrow> fst (std_remove (storage s) (unlink_path request)) = 0)
   \<and> (fst (std_remove (storage s) (unlink_path request)) \<noteq> 0 \<longrightarrow>
        fst (Unlink s request) = NOT_FOUND \<and> \<not> success (fst (snd (Unlink s request))))
   \<and> (fst (std_remove (storage s) (unlink_path request)) = 0 \<longrightarrow>
        GetAttr (snd (snd (Unlink s request))) \<lparr>getattr_path = unlink_path request\<rparr>
          = (NOT_FOUND, \<lparr>attr_exists = False, attr_size = 0, attr_mtime = 0\<rparr>))
   \<and> (files (storage s) (c_str (unlink_path request)) = None \<longrightarrow>
        Unlink s request = (NOT_FOUND, \<lparr>success = False\<rparr>, s))
   \<and> (\<forall>f. files (storage s) (c_str (unlink_path request)) = Some f
          \<and> dir_writable (storage s) (c_str (unlink_path request)) \<longrightarrow>
        fst (Unlink s request) = OK \<and> success (fst (snd (Unlink s request))))"
proof -
  let ?r = "fst (std_remove (storage s) (unlink_path request))"
  have exact: "fst (Unlink s request) = OK \<and> success (fst (snd (Unlink s request)))
      \<longleftrightarrow> ?r = 0"
    by (cases "?r = 0") (simp_all add: Unlink_removed Unlink_not_removed)
  have failed: "?r \<noteq> 0 \<longrightarrow>
        fst (Unlink s request) = NOT_FOUND \<and> \<not> success (fst (snd (Unlink s request)))"
    by (simp add: Unlink_not_removed)
  have gone: "?r = 0 \<longrightarrow>
        GetAttr (snd (snd (Unlink s request))) \<lparr>getattr_path = unlink_path request\<rparr>
          = (NOT_FOUND, \<lparr>attr_exists = False, attr_size = 0, attr_mtime = 0\<rparr>)"
  proof
    assume r: "?r = 0"
    show "GetAttr (snd (snd (Unlink s request))) \<lparr>getattr_path = unlink_path request\<rparr>
          = (NOT_FOUND, \<lparr>attr_exists = False, attr_size = 0, attr_mtime = 0\<rparr>)"
      by (rule GetAttr_absent) (simp add: Unlink_removed [OF r] std_remove_gone [OF r])
  qed
  have absent: "files (storage s) (c_str (unlink_path request)) = None \<longrightarrow>
        Unlink s request = (NOT_FOUND, \<lparr>success = False\<rparr>, s)"
    by (simp add: Unlink_def Let_def std_remove_absent)
  have present: "\<forall>f. files (storage s) (c_str (unlink_path request)) = Some f
          \<and> dir_writable (storage s) (c_str (unlink_path request)) \<longrightarrow>
        fst (Unlink s request) = OK \<and> success (fst (snd (Unlink s request)))"
    by (simp add: Unlink_def Let_def std_remove_def)
  from exact failed gone absent present show ?thesis by blast
qed

text \<open>
  Deleting \<open>a.txt\<close> on \<open>hello_server\<close> succeeds and \<open>GetAttr\<close> then finds nothing;
  deleting it on the empty server fails.
\<close>

theorem Unlink_result_witness:
  "fst (std_remove (storage hello_server) ''a.txt'') = 0
   \<and> fst (Unlink hello_server \<lparr>unlink_path = ''a.txt''\<rparr>) = OK
   \<and> success (fst (snd (Unlink hello_server \<lparr>unlink_path = ''a.txt''\<rparr>)))
   \<and> GetAttr (snd (snd (Unlink hello_server \<lparr>unlink_path = ''a.txt''\<rparr>)))
        \<lparr>getattr_path = ''a.txt''\<rparr>
       = (NOT_FOUND, \<lparr>attr_exists = False, attr_size = 0, attr_mtime = 0\<rparr>)
   \<and> files (storage empty_server) (c_str ''a.txt'') = None
   \<and> Unlink empty_server \<lparr>unlink_path = ''a.txt''\<rparr>
       = (NOT_FOUND, \<lparr>success = False\<rparr>, empty_server)"
  using Unlink_result [of hello_server "\<lparr>unlink_path = ''a.txt''\<rparr>"]
    Unlink_result [of empty_server "\<lparr>unlink_path = ''a.txt''\<rparr>"]
  by (simp add: std_remove_def hello_server_def empty_server_def c_str_a_txt top_level_def)

subsection \<open>Failures that Write does not report\<close>

text \<open>
  C9. Every \<open>Write\<close> that passes the admission gate answers \<open>OK\<close> with \<open>bytes_written\<close>
  equal to the length of the payload, whatever happens to the file. In particular it
  does so when the file neither opens nor can be created, when the file exists and
  cannot be written, and when the seek to a negative offset fails: in each of these the
  store is left as it was.
\<close>

theorem Write_reports_no_io_failure:
  assumes "\<not> write_mtime request < server_mtime (file_versions s) (write_path request)"
  shows "fst (Write s now request) = OK
     \<and> bytes_written (fst (snd (Write s now request))) = int (length (write_data request))
     \<and> (files (storage s) (c_str (write_path request)) = None
          \<and> \<not> dir_writable (storage s) (c_str (write_path request)) \<longrightarrow>
        storage (snd (snd (Write s now request))) = storage s)
     \<and> (\<forall>f. files (storage s) (c_str (write_path request)) = Some f \<and> \<not> writable f \<longrightarrow>
        storage (snd (snd (Write s now request))) = storage s)
     \<and> (\<forall>f. files (storage s) (c_str (write_path request)) = Some f
          \<and> readable f \<and> writable f \<and> write_offset request < 0 \<longrightarrow>
        storage (snd (snd (Write s now request))) = storage s)"
proof -
  note acc = Write_accepted [OF assms, of now]
  have status: "fst (Write s now request) = OK"
    by (simp add: acc)
  have count: "bytes_written (fst (snd (Write s now request))) = int (length (write_data request))"
    by (simp add: acc)
  have absent: "files (storage s) (c_str (write_path request)) = None
          \<and> \<not> dir_writable (storage s) (c_str (write_path request)) \<longrightarrow>
        storage (snd (snd (Write s now request))) = storage s"
    by (simp add: acc fstream_write_unopenable)
  have locked: "\<forall>f. files (storage s) (c_str (write_path request)) = Some f \<and> \<not> writable f \<longrightarrow>
        storage (snd (snd (Write s now request))) = storage s"
    by (simp add: acc fstream_write_unwritable)
  have seek: "\<forall>f. files (storage s) (c_str (write_path request)) = Some f
          \<and> readable f \<and> writable f \<and> write_offset request < 0 \<longrightarrow>
        storage (snd (snd (Write s now request))) = storage s"
    by (simp add: acc fstream_write_negative_offset)
  from status count absent locked seek show ?thesis by blast
qed

text \<open>
  The write of \<open>hello\<close> to \<open>nodir/a.txt\<close> on the empty server answers \<open>OK\<close> with 5 bytes
  and writes nothing; so does the write at offset -1 to \<open>a.txt\<close> on \<open>hello_server\<close>.
\<close>

theorem Write_reports_no_io_failure_witness:
  "fst (Write empty_server 2000
      \<lparr>write_path = ''nodir/a.txt'', write_offset = 0, write_data = ''hello'', write_mtime = 2000\<rparr>)
     = OK
   \<and> bytes_written (fst (snd (Write empty_server 2000
      \<lparr>write_path = ''nodir/a.txt'', write_offset = 0, write_data = ''hello'', write_mtime = 2000\<rparr>)))
     = 5
   \<and> storage (snd (snd (Write empty_server 2000
      \<lparr>write_path = ''nodir/a.txt'', write_offset = 0, write_data = ''hello'', write_mtime = 2000\<rparr>)))
     = storage empty_server
   \<and> storage (snd (snd (Write hello_server 2000
      \<lparr>write_path = ''a.txt'', write_offset = - 1, write_data = ''HELLO'', write_mtime = 2000\<rparr>)))
     = storage hello_server"
  using Write_reports_no_io_failure [of
      "\<lparr>write_path = ''nodir/a.txt'', write_offset = 0, write_data = ''hello'', write_mtime = 2000\<rparr>"
      empty_server 2000]
    Write_reports_no_io_failure [of
      "\<lparr>write_path = ''a.txt'', write_offset = - 1, write_data = ''HELLO'', write_mtime = 2000\<rparr>"
      hello_server 2000]
  by (simp add: server_mtime_def hello_server_def empty_server_def c_str_def NUL_def top_level_def)

subsection \<open>The write hook of the adaptation layer\<close>



end
